theory Spec2Isabelle
  imports Complex_Main
begin

section \<open>The area-Mach solver of \<open>area_mach_relation.py\<close>\<close>

text \<open>
  Python floats are modelled as exact reals: every \<open>+\<close>, \<open>*\<close>, \<open>/\<close> and \<open>**\<close> of the
  source is the exact operation, so rounding, overflow and underflow of IEEE doubles are
  outside the model. A raise of the source is a value \<open>Inl e\<close>; a loop that does not
  return is the value \<open>None\<close>.
\<close>

datatype error =
    InputError real  \<comment> \<open>\<open>Exception("Input must be >= than {}".format(radius_throat))\<close>\<close>
  | ZeroDivisionError  \<comment> \<open>Python's float division by zero\<close>

definition gamma :: real where
  "gamma = 14 / 10"

definition tolerance :: real where
  "tolerance = 1 / 1000000"

definition lower_limit :: real where
  "lower_limit = 1 - tolerance"

definition upper_limit :: real where
  "upper_limit = 1 + tolerance"

definition decimals :: nat where
  "decimals = 5"

text \<open>\<open>a / b\<close> on Python floats raises \<open>ZeroDivisionError\<close> when \<open>b\<close> is zero.\<close>

definition py_div :: "real \<Rightarrow> real \<Rightarrow> error + real" where
  "py_div a b = (if b = 0 then Inl ZeroDivisionError else Inr (a / b))"

text \<open>
  The right side of the area-Mach relation, as the source writes it (lines 60, 79, 86,
  101 and 108): the power is \<open>**\<close> with the exponent \<open>(gamma + 1) / (gamma - 1)\<close>.
\<close>

definition rs_of :: "real \<Rightarrow> error + real" where
  "rs_of mach_no =
     (case py_div 1 (mach_no ^ 2) of
        Inl e \<Rightarrow> Inl e
      | Inr q \<Rightarrow>
          Inr (q * (2 * (1 + ((gamma - 1) * mach_no ^ 2) / 2) / (gamma + 1))
                     powr ((gamma + 1) / (gamma - 1))))"

text \<open>The same value in closed form, for use where \<open>mach_no\<close> is known to be nonzero.\<close>

definition rs :: "real \<Rightarrow> real" where
  "rs m = (1 / m ^ 2) * (2 * (1 + ((gamma - 1) * m ^ 2) / 2) / (gamma + 1)) ^ 6"

text \<open>The variables the loops of the solver update; \<open>i_val\<close> is the source's \<open>i\<close>.\<close>

record state =
  mach_no :: real
  step_size :: real
  i_val :: real

text \<open>
  The three assignments at the head of every inner loop body: step the Mach number,
  recompute the right side, recompute the ratio.
\<close>

definition advance :: "real \<Rightarrow> state \<Rightarrow> error + state" where
  "advance ls s =
     (let m = mach_no s + step_size s in
      case rs_of m of
        Inl e \<Rightarrow> Inl e
      | Inr r \<Rightarrow>
          (case py_div r ls of
             Inl e \<Rightarrow> Inl e
           | Inr i \<Rightarrow> Inr (s\<lparr>mach_no := m, i_val := i\<rparr>)))"

definition reverse_step :: "state \<Rightarrow> state" where
  "reverse_step s = s\<lparr>step_size := step_size s * (- (1 / 10))\<rparr>"

text \<open>\<open>while i > upper_limit\<close> (lines 77-83 and 106-112).\<close>

partial_function (option) loop_gt :: "real \<Rightarrow> state \<Rightarrow> (error + state) option" where
  "loop_gt ls s =
     (if i_val s > upper_limit then
        (case advance ls s of
           Inl e \<Rightarrow> Some (Inl e)
         | Inr s' \<Rightarrow>
             loop_gt ls (if i_val s' < lower_limit then reverse_step s' else s'))
      else Some (Inr s))"

text \<open>\<open>while i < lower_limit\<close> (lines 84-90 and 99-105).\<close>

partial_function (option) loop_lt :: "real \<Rightarrow> state \<Rightarrow> (error + state) option" where
  "loop_lt ls s =
     (if i_val s < lower_limit then
        (case advance ls s of
           Inl e \<Rightarrow> Some (Inl e)
         | Inr s' \<Rightarrow>
             loop_lt ls (if i_val s' > upper_limit then reverse_step s' else s'))
      else Some (Inr s))"

text \<open>The outer loop of the subsonic branch (lines 76-90).\<close>

partial_function (option) subsonic_loop :: "real \<Rightarrow> state \<Rightarrow> (error + state) option" where
  "subsonic_loop ls s =
     (if i_val s < lower_limit \<or> i_val s > upper_limit then
        (case loop_gt ls s of
           None \<Rightarrow> None
         | Some (Inl e) \<Rightarrow> Some (Inl e)
         | Some (Inr s1) \<Rightarrow>
             (case loop_lt ls s1 of
                None \<Rightarrow> None
              | Some (Inl e) \<Rightarrow> Some (Inl e)
              | Some (Inr s2) \<Rightarrow> subsonic_loop ls s2))
      else Some (Inr s))"

text \<open>The outer loop of the supersonic branch (lines 98-112).\<close>

partial_function (option) supersonic_loop :: "real \<Rightarrow> state \<Rightarrow> (error + state) option" where
  "supersonic_loop ls s =
     (if i_val s < lower_limit \<or> i_val s > upper_limit then
        (case loop_lt ls s of
           None \<Rightarrow> None
         | Some (Inl e) \<Rightarrow> Some (Inl e)
         | Some (Inr s1) \<Rightarrow>
             (case loop_gt ls s1 of
                None \<Rightarrow> None
              | Some (Inl e) \<Rightarrow> Some (Inl e)
              | Some (Inr s2) \<Rightarrow> supersonic_loop ls s2))
      else Some (Inr s))"

text \<open>
  \<open>np.around(x, decimals)\<close>: scale by \<open>10 ** decimals\<close>, round half to even, scale back.
\<close>

definition rint :: "real \<Rightarrow> int" where
  "rint x =
     (let f = \<lfloor>x\<rfloor>; d = x - of_int f in
      if d < 1 / 2 then f
      else if d > 1 / 2 then f + 1
      else if even f then f else f + 1)"

definition around :: "real \<Rightarrow> nat \<Rightarrow> real" where
  "around x n = of_int (rint (x * 10 ^ n)) / 10 ^ n"

text \<open>The \<open>else\<close> of each outer loop: round the Mach number reached and return it.\<close>

definition finish :: "(error + state) option \<Rightarrow> (error + real) option" where
  "finish r =
     (case r of
        None \<Rightarrow> None
      | Some (Inl e) \<Rightarrow> Some (Inl e)
      | Some (Inr s) \<Rightarrow> Some (Inr (around (mach_no s) decimals)))"

definition area_to_mach :: "real \<Rightarrow> real \<Rightarrow> real \<Rightarrow> (error + real) option" where
  "area_to_mach x_pos radius_local radius_throat =
     (let mach_no0 = 1; step_size0 = - (1 / 10) in
      if radius_local < radius_throat then Some (Inl (InputError radius_throat))
      else
        let supersonic = (if x_pos < 0 then False else True) in
        case py_div (radius_local ^ 2) (radius_throat ^ 2) of
          Inl e \<Rightarrow> Some (Inl e)
        | Inr local_area_ratio \<Rightarrow>
            let ls = local_area_ratio ^ 2 in
            (case rs_of mach_no0 of
               Inl e \<Rightarrow> Some (Inl e)
             | Inr r \<Rightarrow>
                 (case py_div r ls of
                    Inl e \<Rightarrow> Some (Inl e)
                  | Inr i \<Rightarrow>
                      if i > lower_limit \<and> i < upper_limit then Some (Inr mach_no0)
                      else if \<not> supersonic then
                        finish (subsonic_loop ls
                          \<lparr>mach_no = mach_no0, step_size = step_size0, i_val = i\<rparr>)
                      else
                        finish (supersonic_loop ls
                          \<lparr>mach_no = mach_no0, step_size = step_size0 * (- 1), i_val = i\<rparr>))))"


section \<open>The contour profiler \<open>nozzle_contour_to_mach\<close>\<close>

text \<open>
  The CSV file read at line 125 is the list \<open>df\<close> of its rows, each a pair
  (\<open>x_nozzle\<close>, \<open>y_nozzle\<close>). The first loop (lines 134-138) fills the array
  \<open>contour_mach\<close>, allocated with zeros, by index; an exception of \<open>area_to_mach\<close>
  leaves the loop and the function.
\<close>

function fill_contour ::
  "(real \<times> real) list \<Rightarrow> real \<Rightarrow> nat \<Rightarrow> (real \<times> real \<times> real) list \<Rightarrow>
   (error + (real \<times> real \<times> real) list) option" where
  "fill_contour df radius_throat i contour_mach =
     (if i < length df then
        (case area_to_mach (fst (df ! i)) (snd (df ! i)) radius_throat of
           None \<Rightarrow> None
         | Some (Inl e) \<Rightarrow> Some (Inl e)
         | Some (Inr local_mach) \<Rightarrow>
             fill_contour df radius_throat (i + 1)
               (contour_mach[i := (fst (df ! i), snd (df ! i), local_mach)]))
      else Some (Inr contour_mach))"
  by pat_completeness auto
termination
  by (relation "measure (\<lambda>(df, radius_throat, i, contour_mach). length df - i)") auto

declare fill_contour.simps [simp del]

text \<open>The second loop (lines 141-144): position in metres and Mach number.\<close>

function fill_x_mach ::
  "(real \<times> real \<times> real) list \<Rightarrow> nat \<Rightarrow> (real \<times> real) list \<Rightarrow> (real \<times> real) list" where
  "fill_x_mach contour_mach i x_mach_array =
     (if i < length contour_mach then
        fill_x_mach contour_mach (i + 1)
          (x_mach_array[i := (fst (contour_mach ! i) / 1000, snd (snd (contour_mach ! i)))])
      else x_mach_array)"
  by pat_completeness auto
termination
  by (relation "measure (\<lambda>(contour_mach, i, x_mach_array). length contour_mach - i)") auto

declare fill_x_mach.simps [simp del]

text \<open>
  The function returns nothing; its result is what it writes: the rows of
  \<open>nozzle_Q1D_xym.csv\<close> (the array \<open>contour_mach\<close>) and the rows of
  \<open>nozzle_Q1D_xm.xy\<close> (the array \<open>x_mach_array\<close>). Both files are written after the
  loops, so a failure writes neither.
\<close>

definition nozzle_contour_to_mach ::
  "(real \<times> real) list \<Rightarrow> real \<Rightarrow>
   (error + (real \<times> real \<times> real) list \<times> (real \<times> real) list) option" where
  "nozzle_contour_to_mach df radius_throat =
     (case fill_contour df radius_throat 0 (replicate (length df) (0, 0, 0)) of
        None \<Rightarrow> None
      | Some (Inl e) \<Rightarrow> Some (Inl e)
      | Some (Inr contour_mach) \<Rightarrow>
          Some (Inr (contour_mach,
                     fill_x_mach contour_mach 0 (replicate (length df) (0, 0)))))"

section \<open>The runs of the loops, step by step\<close>














section \<open>Evaluating the right side and the loops\<close>

lemma exponent_six: "(gamma + 1) / (gamma - 1) = 6"
  by (simp add: gamma_def)

lemma rs_closed: "rs m = (5 + m ^ 2) ^ 6 / (46656 * m ^ 2)"
proof -
  have b: "2 * (1 + ((gamma - 1) * m ^ 2) / 2) / (gamma + 1) = (5 + m ^ 2) / 6"
    by (simp add: gamma_def field_simps)
  show ?thesis
    unfolding rs_def b by (simp add: power_divide)
qed

lemma rs_of_eq: "rs_of m = (if m = 0 then Inl ZeroDivisionError else Inr (rs m))"
proof -
  have pos: "0 < 2 * (1 + ((gamma - 1) * m ^ 2) / 2) / (gamma + 1)"
    by (simp add: gamma_def add_pos_nonneg)
  show ?thesis
    unfolding rs_of_def py_div_def rs_def exponent_six
    using pos by (simp add: powr_numeral)
qed

lemma rs_one: "rs 1 = 1"
  by (simp add: rs_closed)

lemma advance_eq:
  "advance ls \<lparr>mach_no = m, step_size = st, i_val = i\<rparr> =
     (if m + st = 0 \<or> ls = 0 then Inl ZeroDivisionError
      else Inr \<lparr>mach_no = m + st, step_size = st, i_val = rs (m + st) / ls\<rparr>)"
  by (simp add: advance_def rs_of_eq py_div_def Let_def)

lemma limits: "lower_limit = 999999 / 1000000" "upper_limit = 1000001 / 1000000"
  by (simp_all add: lower_limit_def upper_limit_def tolerance_def)

lemma rint_of_int: "rint (of_int k) = k"
  by (simp add: rint_def)

lemma around_one: "around 1 decimals = 1"
proof -
  have "rint (1 * 10 ^ decimals) = 100000"
    using rint_of_int [of 100000] by (simp add: decimals_def)
  then show ?thesis
    by (simp add: around_def decimals_def)
qed

text \<open>
  The solver after its input check, with the first ratio \<open>i = rs / ls\<close> computed: what
  \<open>area_to_mach\<close> does for a geometry that passes the check and has nonzero radii.
\<close>

lemma area_to_mach_unfold:
  assumes "\<not> radius_local < radius_throat" and "radius_throat \<noteq> 0" and "radius_local \<noteq> 0"
    and "ls = (radius_local ^ 2 / radius_throat ^ 2) ^ 2"
  shows "area_to_mach x_pos radius_local radius_throat =
     (if 1 / ls > lower_limit \<and> 1 / ls < upper_limit then Some (Inr 1)
      else if x_pos < 0 then
        finish (subsonic_loop ls \<lparr>mach_no = 1, step_size = - (1 / 10), i_val = 1 / ls\<rparr>)
      else
        finish (supersonic_loop ls \<lparr>mach_no = 1, step_size = 1 / 10, i_val = 1 / ls\<rparr>))"
  using assms by (simp add: area_to_mach_def Let_def py_div_def rs_of_eq rs_one)

lemma subsonic_loop_stop:
  "\<not> (i_val s < lower_limit \<or> i_val s > upper_limit) \<Longrightarrow> subsonic_loop ls s = Some (Inr s)"
  by (subst subsonic_loop.simps) simp

lemma supersonic_loop_stop:
  "\<not> (i_val s < lower_limit \<or> i_val s > upper_limit) \<Longrightarrow> supersonic_loop ls s = Some (Inr s)"
  by (subst supersonic_loop.simps) simp

section \<open>Running the loops on concrete inputs\<close>

lemma loop_lt_step:
  "i < 999999 / 1000000 \<Longrightarrow> m + st \<noteq> 0 \<Longrightarrow> ls \<noteq> 0 \<Longrightarrow>
   loop_lt ls \<lparr>mach_no = m, step_size = st, i_val = i\<rparr> =
   loop_lt ls \<lparr>mach_no = m + st,
     step_size = (if rs (m + st) / ls > 1000001 / 1000000 then st * (- (1 / 10)) else st),
     i_val = rs (m + st) / ls\<rparr>"
  by (subst loop_lt.simps) (simp add: advance_eq reverse_step_def limits)

lemma loop_lt_stop:
  "\<not> i < 999999 / 1000000 \<Longrightarrow>
   loop_lt ls \<lparr>mach_no = m, step_size = st, i_val = i\<rparr> =
   Some (Inr \<lparr>mach_no = m, step_size = st, i_val = i\<rparr>)"
  by (subst loop_lt.simps) (simp add: limits)

lemma loop_gt_step:
  "i > 1000001 / 1000000 \<Longrightarrow> m + st \<noteq> 0 \<Longrightarrow> ls \<noteq> 0 \<Longrightarrow>
   loop_gt ls \<lparr>mach_no = m, step_size = st, i_val = i\<rparr> =
   loop_gt ls \<lparr>mach_no = m + st,
     step_size = (if rs (m + st) / ls < 999999 / 1000000 then st * (- (1 / 10)) else st),
     i_val = rs (m + st) / ls\<rparr>"
  by (subst loop_gt.simps) (simp add: advance_eq reverse_step_def limits)

lemma loop_gt_stop:
  "\<not> i > 1000001 / 1000000 \<Longrightarrow>
   loop_gt ls \<lparr>mach_no = m, step_size = st, i_val = i\<rparr> =
   Some (Inr \<lparr>mach_no = m, step_size = st, i_val = i\<rparr>)"
  by (subst loop_gt.simps) (simp add: limits)

lemma supersonic_loop_step:
  "i < 999999 / 1000000 \<or> i > 1000001 / 1000000 \<Longrightarrow>
   supersonic_loop ls \<lparr>mach_no = m, step_size = st, i_val = i\<rparr> =
     (case loop_lt ls \<lparr>mach_no = m, step_size = st, i_val = i\<rparr> of
        None \<Rightarrow> None
      | Some (Inl e) \<Rightarrow> Some (Inl e)
      | Some (Inr s1) \<Rightarrow>
          (case loop_gt ls s1 of
             None \<Rightarrow> None
           | Some (Inl e) \<Rightarrow> Some (Inl e)
           | Some (Inr s2) \<Rightarrow> supersonic_loop ls s2))"
  by (subst supersonic_loop.simps) (simp add: limits)

lemma subsonic_loop_step:
  "i < 999999 / 1000000 \<or> i > 1000001 / 1000000 \<Longrightarrow>
   subsonic_loop ls \<lparr>mach_no = m, step_size = st, i_val = i\<rparr> =
     (case loop_gt ls \<lparr>mach_no = m, step_size = st, i_val = i\<rparr> of
        None \<Rightarrow> None
      | Some (Inl e) \<Rightarrow> Some (Inl e)
      | Some (Inr s1) \<Rightarrow>
          (case loop_lt ls s1 of
             None \<Rightarrow> None
           | Some (Inl e) \<Rightarrow> Some (Inl e)
           | Some (Inr s2) \<Rightarrow> subsonic_loop ls s2))"
  by (subst subsonic_loop.simps) (simp add: limits)

lemma outer_loop_stop:
  "\<not> (i < 999999 / 1000000 \<or> i > 1000001 / 1000000) \<Longrightarrow>
   supersonic_loop ls \<lparr>mach_no = m, step_size = st, i_val = i\<rparr> =
   Some (Inr \<lparr>mach_no = m, step_size = st, i_val = i\<rparr>)"
  "\<not> (i < 999999 / 1000000 \<or> i > 1000001 / 1000000) \<Longrightarrow>
   subsonic_loop ls \<lparr>mach_no = m, step_size = st, i_val = i\<rparr> =
   Some (Inr \<lparr>mach_no = m, step_size = st, i_val = i\<rparr>)"
  by (simp_all add: supersonic_loop_stop subsonic_loop_stop limits)

lemmas run_simps = loop_lt_step loop_lt_stop loop_gt_step loop_gt_stop
  supersonic_loop_step subsonic_loop_step outer_loop_stop rs_closed power_divide

lemma area_to_mach_eval:
  assumes "\<not> radius_local < radius_throat" and "radius_throat \<noteq> 0" and "radius_local \<noteq> 0"
    and "ls = (radius_local ^ 2 / radius_throat ^ 2) ^ 2"
    and "\<not> (1 / ls > lower_limit \<and> 1 / ls < upper_limit)"
  shows "area_to_mach x_pos radius_local radius_throat =
     (if x_pos < 0 then
        finish (subsonic_loop ls \<lparr>mach_no = 1, step_size = - (1 / 10), i_val = 1 / ls\<rparr>)
      else
        finish (supersonic_loop ls \<lparr>mach_no = 1, step_size = 1 / 10, i_val = 1 / ls\<rparr>))"
  using assms(5) by (subst area_to_mach_unfold [OF assms(1-4)]) (simp only: if_False)

lemma finish_eval:
  "finish (Some (Inr \<lparr>mach_no = m, step_size = st, i_val = i\<rparr>)) =
     Some (Inr (of_int (rint (m * 100000)) / 100000))"
  by (simp add: finish_def around_def decimals_def)



lemma solve_sup_1031: "0 \<le> x \<Longrightarrow> area_to_mach x (1031 / 1000) 1 = Some (Inr (1292 / 1000))"
  by (subst area_to_mach_eval [of "1031 / 1000" 1 "(1031 / 1000) ^ 4"])
     (simp_all add: limits run_simps finish_eval rint_def Let_def)


lemma solve_sub_115: "x < 0 \<Longrightarrow> area_to_mach x (115 / 100) 1 = Some (Inr (50927 / 100000))"
  by (subst area_to_mach_eval [of "115 / 100" 1 "(115 / 100) ^ 4"])
     (simp_all add: limits run_simps finish_eval rint_def Let_def)




text \<open>
  Where exact arithmetic and doubles part. Ten exact steps of \<open>1 / 10\<close> down from 1
  reach 0, where the source's \<open>1 / mach_no ** 2\<close> raises; this happens for a radius
  ratio of 3 upstream, whose subsonic Mach number is below 0.1. In doubles the tenth
  subtraction leaves a remainder of about \<open>1.4e-16\<close>, so the Python program goes on
  from there. The statements below that promise a result upstream are therefore limited
  to searches that turn before Mach 0.
\<close>

lemma loop_lt_error:
  "i < 999999 / 1000000 \<Longrightarrow> m + st = 0 \<or> ls = 0 \<Longrightarrow>
   loop_lt ls \<lparr>mach_no = m, step_size = st, i_val = i\<rparr> = Some (Inl ZeroDivisionError)"
  by (subst loop_lt.simps) (auto simp: advance_eq limits)

lemma exact_search_reaches_zero:
  "area_to_mach (- 1) 3 1 = Some (Inl ZeroDivisionError)"
  by (subst area_to_mach_eval [of 3 1 81])
     (simp_all add: limits run_simps loop_lt_error finish_def)


section \<open>The contour loop\<close>

lemma fill_contour_length:
  "fill_contour df rt i cm = Some (Inr out) \<Longrightarrow> length out = length cm"
proof (induction df rt i cm rule: fill_contour.induct)
  case (1 df rt i cm)
  show ?case
  proof (cases "i < length df")
    case True
    with "1.prems" obtain m where
      m: "area_to_mach (fst (df ! i)) (snd (df ! i)) rt = Some (Inr m)"
      and r: "fill_contour df rt (i + 1) (cm[i := (fst (df ! i), snd (df ! i), m)]) = Some (Inr out)"
      by (subst (asm) fill_contour.simps) (auto split: option.splits sum.splits)
    from "1.IH" [OF True m refl r] show ?thesis by simp
  next
    case False
    with "1.prems" show ?thesis by (subst (asm) fill_contour.simps) simp
  qed
qed

lemma fill_contour_rows:
  "fill_contour df rt i cm = Some (Inr out) \<Longrightarrow> length cm = length df \<Longrightarrow>
   (\<forall>j<length df. if j < i then out ! j = cm ! j
      else fst (out ! j) = fst (df ! j) \<and> fst (snd (out ! j)) = snd (df ! j) \<and>
           area_to_mach (fst (df ! j)) (snd (df ! j)) rt = Some (Inr (snd (snd (out ! j)))))"
proof (induction df rt i cm rule: fill_contour.induct)
  case (1 df rt i cm)
  show ?case
  proof (cases "i < length df")
    case True
    with "1.prems" obtain m where
      m: "area_to_mach (fst (df ! i)) (snd (df ! i)) rt = Some (Inr m)"
      and r: "fill_contour df rt (i + 1) (cm[i := (fst (df ! i), snd (df ! i), m)]) = Some (Inr out)"
      by (subst (asm) fill_contour.simps) (auto split: option.splits sum.splits)
    have ih: "\<forall>j<length df. if j < i + 1
        then out ! j = (cm[i := (fst (df ! i), snd (df ! i), m)]) ! j
        else fst (out ! j) = fst (df ! j) \<and> fst (snd (out ! j)) = snd (df ! j) \<and>
           area_to_mach (fst (df ! j)) (snd (df ! j)) rt = Some (Inr (snd (snd (out ! j))))"
      using "1.IH" [OF True m refl r] "1.prems"(2) by simp
    show ?thesis
    proof (intro allI impI)
      fix j assume j: "j < length df"
      consider "j < i" | "j = i" | "i < j" by linarith
      then show "if j < i then out ! j = cm ! j
        else fst (out ! j) = fst (df ! j) \<and> fst (snd (out ! j)) = snd (df ! j) \<and>
           area_to_mach (fst (df ! j)) (snd (df ! j)) rt = Some (Inr (snd (snd (out ! j))))"
      proof cases
        case 1
        with ih j show ?thesis by simp
      next
        case 2
        with ih j "1.prems"(2) m show ?thesis by simp
      next
        case 3
        with ih j show ?thesis by simp
      qed
    qed
  next
    case False
    with "1.prems" show ?thesis by (subst (asm) fill_contour.simps) simp
  qed
qed

lemma fill_contour_total:
  "\<forall>j. i \<le> j \<and> j < length df \<longrightarrow>
      (\<exists>m. area_to_mach (fst (df ! j)) (snd (df ! j)) rt = Some (Inr m)) \<Longrightarrow>
   \<exists>out. fill_contour df rt i cm = Some (Inr out)"
proof (induction df rt i cm rule: fill_contour.induct)
  case (1 df rt i cm)
  show ?case
  proof (cases "i < length df")
    case True
    with "1.prems" obtain m where
      m: "area_to_mach (fst (df ! i)) (snd (df ! i)) rt = Some (Inr m)" by auto
    have "\<exists>out. fill_contour df rt (i + 1) (cm[i := (fst (df ! i), snd (df ! i), m)]) = Some (Inr out)"
      using "1.prems" by (intro "1.IH" [OF True m refl]) auto
    then show ?thesis
      using True m by (subst fill_contour.simps) simp
  next
    case False
    then show ?thesis by (subst fill_contour.simps) simp
  qed
qed

lemma fill_contour_abort:
  "k < length df \<Longrightarrow> i \<le> k \<Longrightarrow>
   \<forall>j. i \<le> j \<and> j < k \<longrightarrow>
      (\<exists>m. area_to_mach (fst (df ! j)) (snd (df ! j)) rt = Some (Inr m)) \<Longrightarrow>
   area_to_mach (fst (df ! k)) (snd (df ! k)) rt = Some (Inl e) \<Longrightarrow>
   fill_contour df rt i cm = Some (Inl e)"
proof (induction df rt i cm rule: fill_contour.induct)
  case (1 df rt i cm)
  from "1.prems" have lt: "i < length df" by simp
  show ?case
  proof (cases "i = k")
    case True
    with "1.prems" lt show ?thesis by (subst fill_contour.simps) simp
  next
    case False
    with "1.prems" have ik: "i + 1 \<le> k" by simp
    from "1.prems" False obtain m where
      m: "area_to_mach (fst (df ! i)) (snd (df ! i)) rt = Some (Inr m)" by force
    have "fill_contour df rt (i + 1) (cm[i := (fst (df ! i), snd (df ! i), m)]) = Some (Inl e)"
      using "1.prems" ik by (intro "1.IH" [OF lt m refl]) auto
    then show ?thesis
      using lt m by (subst fill_contour.simps) simp
  qed
qed

section \<open>The loops are the step-by-step search\<close>

























section \<open>Bounds a search keeps\<close>











section \<open>Rounding, mirrored runs and the first steps\<close>




















section \<open>Two runs side by side\<close>






section \<open>The search returns\<close>




















section \<open>Claims about the solver's checks and branches\<close>

text \<open>
  Claim C4. An input with \<open>radius_local < radius_throat\<close> fails with the input
  exception of line 43, whatever the axial position: the check is the first thing the
  solver does, and its result involves no loop. For non-negative \<open>radius_local\<close> and
  positive \<open>radius_throat\<close> an area ratio below 1 is such an input; the witness is an
  area ratio of exactly 0.5 in both regimes.
\<close>

theorem invalid_geometry_fails:
  "radius_local < radius_throat \<or>
     (0 \<le> radius_local \<and> 0 < radius_throat \<and> radius_local ^ 2 / radius_throat ^ 2 < 1) \<Longrightarrow>
   area_to_mach x_pos radius_local radius_throat = Some (Inl (InputError radius_throat))"
proof -
  assume h: "radius_local < radius_throat \<or>
     (0 \<le> radius_local \<and> 0 < radius_throat \<and> radius_local ^ 2 / radius_throat ^ 2 < 1)"
  have "radius_local < radius_throat"
  proof (rule ccontr)
    assume n: "\<not> radius_local < radius_throat"
    with h have p: "0 \<le> radius_local" "0 < radius_throat"
      and r: "radius_local ^ 2 / radius_throat ^ 2 < 1" by auto
    from n p have "radius_throat ^ 2 \<le> radius_local ^ 2"
      by (intro power_mono) auto
    moreover from p have "0 < radius_throat ^ 2" by simp
    ultimately have "1 \<le> radius_local ^ 2 / radius_throat ^ 2" by simp
    with r show False by simp
  qed
  then show ?thesis by (simp add: area_to_mach_def)
qed

theorem invalid_geometry_fails_witness:
  "area_to_mach (- 1) 1 (sqrt 2) = Some (Inl (InputError (sqrt 2))) \<and>
   area_to_mach 1 1 (sqrt 2) = Some (Inl (InputError (sqrt 2))) \<and>
   (1::real) ^ 2 / (sqrt 2) ^ 2 = 1 / 2"
  using invalid_geometry_fails [of 1 "sqrt 2" "- 1"] invalid_geometry_fails [of 1 "sqrt 2" 1]
  by simp

text \<open>
  Claim C9. For a geometry that passes the check and is not the throat case, the branch
  taken depends on the axial position only through the test \<open>x_pos < 0\<close>: a negative
  position runs the subsonic loop, every other position (zero included) the supersonic
  loop, whatever the area ratio.
\<close>

theorem regime_from_sign:
  assumes "\<not> radius_local < radius_throat" and "radius_throat \<noteq> 0" and "radius_local \<noteq> 0"
    and "ls = (radius_local ^ 2 / radius_throat ^ 2) ^ 2"
    and "\<not> (1 / ls > lower_limit \<and> 1 / ls < upper_limit)"
  shows "area_to_mach x_pos radius_local radius_throat =
     (if x_pos < 0 then
        finish (subsonic_loop ls \<lparr>mach_no = 1, step_size = - (1 / 10), i_val = 1 / ls\<rparr>)
      else
        finish (supersonic_loop ls \<lparr>mach_no = 1, step_size = 1 / 10, i_val = 1 / ls\<rparr>))"
  using assms(5) by (subst area_to_mach_unfold [OF assms(1-4)]) (simp only: if_False)

theorem regime_from_sign_witness:
  "area_to_mach 0 2 1 =
     finish (supersonic_loop 16 \<lparr>mach_no = 1, step_size = 1 / 10, i_val = 1 / 16\<rparr>) \<and>
   area_to_mach (- 1 / 1000) 2 1 =
     finish (subsonic_loop 16 \<lparr>mach_no = 1, step_size = - (1 / 10), i_val = 1 / 16\<rparr>)"
  using regime_from_sign [of 2 1 16 0] regime_from_sign [of 2 1 16 "- 1 / 1000"]
  by (simp add: limits)

text \<open>
  Claim C2. With \<open>radius_local = radius_throat\<close> (nonzero) the solver returns 1 in both
  regimes, and more generally it returns 1 whenever the first ratio
  \<open>rs / ls = 1 / ls\<close> lies in the closed band between \<open>lower_limit\<close> and
  \<open>upper_limit\<close>: inside the band by the first test, on its edges because the loop is
  not entered and rounding 1 gives 1.
\<close>

theorem throat_returns_one:
  "(radius_throat \<noteq> 0 \<longrightarrow> area_to_mach x_pos radius_throat radius_throat = Some (Inr 1)) \<and>
   (\<not> radius_local < radius_throat \<and> radius_throat \<noteq> 0 \<and> radius_local \<noteq> 0 \<and>
    lower_limit \<le> 1 / (radius_local ^ 2 / radius_throat ^ 2) ^ 2 \<and>
    1 / (radius_local ^ 2 / radius_throat ^ 2) ^ 2 \<le> upper_limit \<longrightarrow>
    area_to_mach x_pos radius_local radius_throat = Some (Inr 1))"
proof (intro conjI impI)
  assume "radius_throat \<noteq> 0"
  then show "area_to_mach x_pos radius_throat radius_throat = Some (Inr 1)"
    using area_to_mach_unfold [of radius_throat radius_throat 1 x_pos]
    by (simp add: limits)
next
  assume h: "\<not> radius_local < radius_throat \<and> radius_throat \<noteq> 0 \<and> radius_local \<noteq> 0 \<and>
    lower_limit \<le> 1 / (radius_local ^ 2 / radius_throat ^ 2) ^ 2 \<and>
    1 / (radius_local ^ 2 / radius_throat ^ 2) ^ 2 \<le> upper_limit"
  define ls where "ls = (radius_local ^ 2 / radius_throat ^ 2) ^ 2"
  define s0 where "s0 = \<lparr>mach_no = 1, step_size = - (1 / 10), i_val = 1 / ls\<rparr>"
  define s1 where "s1 = \<lparr>mach_no = 1, step_size = 1 / 10, i_val = 1 / ls\<rparr>"
  from h have band: "lower_limit \<le> 1 / ls" "1 / ls \<le> upper_limit"
    by (simp_all add: ls_def)
  have u: "area_to_mach x_pos radius_local radius_throat =
     (if 1 / ls > lower_limit \<and> 1 / ls < upper_limit then Some (Inr 1)
      else if x_pos < 0 then finish (subsonic_loop ls s0) else finish (supersonic_loop ls s1))"
    unfolding s0_def s1_def
    using h by (intro area_to_mach_unfold) (simp_all add: ls_def)
  have "subsonic_loop ls s0 = Some (Inr s0)"
    using band by (intro subsonic_loop_stop) (simp add: s0_def)
  then have a: "finish (subsonic_loop ls s0) = Some (Inr 1)"
    by (simp add: finish_def s0_def around_one)
  have "supersonic_loop ls s1 = Some (Inr s1)"
    using band by (intro supersonic_loop_stop) (simp add: s1_def)
  then have b: "finish (supersonic_loop ls s1) = Some (Inr 1)"
    by (simp add: finish_def s1_def around_one)
  show "area_to_mach x_pos radius_local radius_throat = Some (Inr 1)"
    unfolding u using a b by simp
qed

theorem throat_returns_one_witness:
  "area_to_mach (- 10) (43263 / 10000) (43263 / 10000) = Some (Inr 1) \<and>
   area_to_mach 0 (43263 / 10000) (43263 / 10000) = Some (Inr 1) \<and>
   area_to_mach 10 (10000001 / 10000000) 1 = Some (Inr 1)"
  using throat_returns_one [of "43263 / 10000" "- 10" "43263 / 10000"]
    throat_returns_one [of "43263 / 10000" 0 "43263 / 10000"]
    throat_returns_one [of 1 10 "10000001 / 10000000"]
  by (simp add: limits power_divide)

section \<open>Claims about the contour profiler\<close>

text \<open>
  Claim C5. For a contour on which the solver returns a Mach number at every point, the
  profiler returns, and the array it writes has one row per input row, in the input's
  order: row \<open>i\<close> holds the position and the radius of input row \<open>i\<close>, and the Mach
  number the solver returns for them.
\<close>

theorem profile_preserves_order:
  assumes "\<forall>p \<in> set df. \<exists>m. area_to_mach (fst p) (snd p) radius_throat = Some (Inr m)"
  shows "\<exists>contour_mach x_mach_array.
     nozzle_contour_to_mach df radius_throat = Some (Inr (contour_mach, x_mach_array)) \<and>
     length contour_mach = length df \<and>
     (\<forall>i<length df.
        fst (contour_mach ! i) = fst (df ! i) \<and>
        fst (snd (contour_mach ! i)) = snd (df ! i) \<and>
        area_to_mach (fst (df ! i)) (snd (df ! i)) radius_throat =
          Some (Inr (snd (snd (contour_mach ! i)))))"
proof -
  define z where "z = replicate (length df) (0::real, 0::real, 0::real)"
  have "\<forall>j. 0 \<le> j \<and> j < length df \<longrightarrow>
      (\<exists>m. area_to_mach (fst (df ! j)) (snd (df ! j)) radius_throat = Some (Inr m))"
    using assms by simp
  from fill_contour_total [OF this] obtain out where
    out: "fill_contour df radius_throat 0 z = Some (Inr out)" by blast
  have len: "length out = length df"
    using fill_contour_length [OF out] by (simp add: z_def)
  have rows: "\<forall>i<length df.
        fst (out ! i) = fst (df ! i) \<and> fst (snd (out ! i)) = snd (df ! i) \<and>
        area_to_mach (fst (df ! i)) (snd (df ! i)) radius_throat = Some (Inr (snd (snd (out ! i))))"
    using fill_contour_rows [OF out] by (simp add: z_def)
  have "nozzle_contour_to_mach df radius_throat =
      Some (Inr (out, fill_x_mach out 0 (replicate (length df) (0, 0))))"
    using out by (simp add: nozzle_contour_to_mach_def z_def)
  with len rows show ?thesis by blast
qed

theorem profile_preserves_order_witness:
  "\<exists>contour_mach x_mach_array.
     nozzle_contour_to_mach [(- 10, 115 / 100), (0, 1), (10, 1031 / 1000)] 1 =
       Some (Inr (contour_mach, x_mach_array)) \<and>
     length contour_mach = 3 \<and>
     map fst contour_mach = [- 10, 0, 10]"
proof -
  let ?df = "[(- 10, 115 / 100), (0, 1), (10, 1031 / 1000)] :: (real \<times> real) list"
  have a: "\<exists>m. area_to_mach (- 10) (115 / 100) 1 = Some (Inr m)"
    by (intro exI, rule solve_sub_115) simp
  have b: "\<exists>m. area_to_mach 0 1 1 = Some (Inr m)"
    using area_to_mach_unfold [of 1 1 1 0] by (simp add: limits)
  have c: "\<exists>m. area_to_mach 10 (1031 / 1000) 1 = Some (Inr m)"
    by (intro exI, rule solve_sup_1031) simp
  have "\<forall>p \<in> set ?df. \<exists>m. area_to_mach (fst p) (snd p) 1 = Some (Inr m)"
    using a b c by simp
  from profile_preserves_order [OF this] obtain cm xm where
    r: "nozzle_contour_to_mach ?df 1 = Some (Inr (cm, xm))" and l: "length cm = length ?df"
    and rows: "\<forall>i<length ?df. fst (cm ! i) = fst (?df ! i)" by blast
  from l have l3: "length cm = 3" by simp
  have "map fst cm = map fst ?df"
    using rows l by (intro nth_equalityI) (auto simp: less_Suc_eq)
  with r l3 show ?thesis by simp
qed

text \<open>
  Claim C6, as stated, fails: the failure the profiler surfaces is the solver's exception
  unchanged, whose only content is \<open>radius_throat\<close>. It is the same value when the
  offending point is row 0 at position 3 and when it is row 1 at position 5, so it
  carries neither the index nor the position.
\<close>

theorem profile_failure_untagged_counterexample:
  "nozzle_contour_to_mach [(3, 1)] 2 = Some (Inl (InputError 2)) \<and>
   nozzle_contour_to_mach [(0, 2), (5, 1)] 2 = Some (Inl (InputError 2))"
proof -
  have bad: "area_to_mach x 1 2 = Some (Inl (InputError 2))" for x
    by (simp add: area_to_mach_def)
  have ok: "area_to_mach 0 2 2 = Some (Inr 1)"
    using area_to_mach_unfold [of 2 2 1 0] by (simp add: limits)
  have "fill_contour [(3, 1)] 2 0 (replicate (length [(3::real, 1::real)]) (0, 0, 0)) =
      Some (Inl (InputError 2))"
    using bad by (intro fill_contour_abort [of 0]) simp_all
  moreover have "fill_contour [(0, 2), (5, 1)] 2 0
      (replicate (length [(0::real, 2::real), (5, 1)]) (0, 0, 0)) = Some (Inl (InputError 2))"
    using bad ok by (intro fill_contour_abort [of 1]) simp_all
  ultimately show ?thesis
    by (simp add: nozzle_contour_to_mach_def)
qed

text \<open>
  Claim C6, amended. If the solver fails at row \<open>k\<close> of the contour and returns a Mach
  number at every earlier row, the profiler fails with the solver's failure, unchanged:
  the whole contour is aborted, no row is skipped and nothing is written.
\<close>

theorem profile_aborts_on_failure:
  assumes "k < length df"
    and "\<forall>j<k. \<exists>m. area_to_mach (fst (df ! j)) (snd (df ! j)) radius_throat = Some (Inr m)"
    and "area_to_mach (fst (df ! k)) (snd (df ! k)) radius_throat = Some (Inl e)"
  shows "nozzle_contour_to_mach df radius_throat = Some (Inl e)"
proof -
  have "fill_contour df radius_throat 0 (replicate (length df) (0, 0, 0)) = Some (Inl e)"
    using assms by (intro fill_contour_abort [of k]) auto
  then show ?thesis by (simp add: nozzle_contour_to_mach_def)
qed

theorem profile_aborts_on_failure_witness:
  "nozzle_contour_to_mach [(0, 2), (5, 1)] 2 = Some (Inl (InputError 2))"
proof -
  have bad: "area_to_mach 5 1 2 = Some (Inl (InputError 2))"
    by (simp add: area_to_mach_def)
  have ok: "area_to_mach 0 2 2 = Some (Inr 1)"
    using area_to_mach_unfold [of 2 2 1 0] by (simp add: limits)
  show ?thesis
    using profile_aborts_on_failure [of 1 "[(0, 2), (5, 1)]" 2 "InputError 2"] bad ok
    by simp
qed


section \<open>Claims about the value the solver returns\<close>









end
